theory Spec2Isabelle
  imports Complex_Main "HOL-Library.Sublist"
begin

section \<open>JavaScript values used by the validators\<close>

subsection \<open>Strings\<close>

text \<open>
  A JavaScript string is a sequence of UTF-16 code units. The model uses \<^typ>\<open>string\<close>,
  whose characters are the code units \<open>0\<close> to \<open>255\<close> (ASCII and Latin-1); \<open>length\<close> is
  then \<^verbatim>\<open>String.prototype.length\<close>. On that range \<^verbatim>\<open>toLowerCase\<close> maps \<open>A\<close>-\<open>Z\<close>
  and the Latin-1 capitals (\<open>0xC0\<close>-\<open>0xDE\<close> without the multiplication sign \<open>0xD7\<close>) to
  the code unit 32 above, and \<^verbatim>\<open>trim\<close> strips TAB, LF, VT, FF, CR, SPACE and NBSP from
  both ends.
\<close>

definition lower_char :: "char \<Rightarrow> char" where
  "lower_char c =
     (let n = (of_char c :: nat) in
      if (65 \<le> n \<and> n \<le> 90) \<or> (192 \<le> n \<and> n \<le> 214) \<or> (216 \<le> n \<and> n \<le> 222)
      then char_of (n + 32) else c)"

definition toLowerCase :: "string \<Rightarrow> string" where
  "toLowerCase s = map lower_char s"

definition is_white_space :: "char \<Rightarrow> bool" where
  "is_white_space c =
     (let n = (of_char c :: nat) in (9 \<le> n \<and> n \<le> 13) \<or> n = 32 \<or> n = 160)"

definition trim :: "string \<Rightarrow> string" where
  "trim s = rev (dropWhile is_white_space (rev (dropWhile is_white_space s)))"

text \<open>\<^verbatim>\<open>s.includes(t)\<close>: \<open>t\<close> occurs in \<open>s\<close> as a contiguous run of code units.\<close>

fun includes_str :: "string \<Rightarrow> string \<Rightarrow> bool" where
  "includes_str [] t = (t = [])"
| "includes_str (c # cs) t = (take (length t) (c # cs) = t \<or> includes_str cs t)"

text \<open>The regular expressions \<^verbatim>\<open>/[A-Z]/\<close> and \<^verbatim>\<open>/[0-9]/\<close>, applied with \<^verbatim>\<open>test\<close>.\<close>

definition is_A_Z :: "char \<Rightarrow> bool" where
  "is_A_Z c = (let n = (of_char c :: nat) in 65 \<le> n \<and> n \<le> 90)"

definition is_0_9 :: "char \<Rightarrow> bool" where
  "is_0_9 c = (let n = (of_char c :: nat) in 48 \<le> n \<and> n \<le> 57)"

definition test_A_Z :: "string \<Rightarrow> bool" where
  "test_A_Z s = list_ex is_A_Z s"

definition test_0_9 :: "string \<Rightarrow> bool" where
  "test_0_9 s = list_ex is_0_9 s"

subsection \<open>Numbers\<close>

text \<open>
  The type \<^verbatim>\<open>number\<close>: the finite values (every double is a real; the comparisons
  used here agree with the order of the reals), the two infinities and \<^verbatim>\<open>NaN\<close>.
  \<^verbatim>\<open>a < b\<close> and \<^verbatim>\<open>a > b\<close> are false as soon as one side is \<^verbatim>\<open>NaN\<close>.
\<close>

datatype number = Num real | Infinity | NegInfinity | NaN

fun lt :: "number \<Rightarrow> number \<Rightarrow> bool" where
  "lt NaN _ = False"
| "lt _ NaN = False"
| "lt (Num a) (Num b) = (a < b)"
| "lt NegInfinity NegInfinity = False"
| "lt NegInfinity _ = True"
| "lt _ NegInfinity = False"
| "lt Infinity _ = False"
| "lt _ Infinity = True"

definition gt :: "number \<Rightarrow> number \<Rightarrow> bool" where
  "gt a b = lt b a"

section \<open>The Result value\<close>

text \<open>
  Modelled from the spec: the \<^verbatim>\<open>Result\<close> type of the \<^verbatim>\<open>neverthrow\<close> package and its
  combinators \<^verbatim>\<open>ok\<close>, \<^verbatim>\<open>err\<close>, \<^verbatim>\<open>isOk\<close>, \<^verbatim>\<open>isErr\<close>, \<^verbatim>\<open>map\<close> and \<^verbatim>\<open>andThen\<close>. The
  package is imported by every source file and its code is not part of the repository.
  A Result is exactly one of Success (\<open>Ok\<close>) and Failure (\<open>Err\<close>); \<^verbatim>\<open>map\<close> applies a
  function to the value of a Success and passes a Failure through; \<^verbatim>\<open>andThen\<close> hands the
  value of a Success to the next step and returns a Failure as it is.
\<close>

datatype ('t, 'e) Result = Ok 't | Err 'e

text \<open>Modelled from the spec: \<^verbatim>\<open>isOk\<close> and \<^verbatim>\<open>isErr\<close> of neverthrow, the two pure
  predicates telling Success from Failure.\<close>

fun isOk :: "('t, 'e) Result \<Rightarrow> bool" where
  "isOk (Ok v) = True"
| "isOk (Err e) = False"

fun isErr :: "('t, 'e) Result \<Rightarrow> bool" where
  "isErr (Ok v) = False"
| "isErr (Err e) = True"

text \<open>Modelled from the spec: \<^verbatim>\<open>map\<close> of neverthrow, which applies \<open>f\<close> to the value of a
  Success and passes a Failure through with its error untouched.\<close>

fun map_res :: "('t, 'e) Result \<Rightarrow> ('t \<Rightarrow> 'u) \<Rightarrow> ('u, 'e) Result" where
  "map_res (Ok v) f = Ok (f v)"
| "map_res (Err e) f = Err e"

text \<open>Modelled from the spec: \<^verbatim>\<open>andThen\<close> of neverthrow, which on a Success calls \<open>f\<close> on
  the value and returns its Result, and on a Failure returns the Failure with the same
  error.\<close>

fun andThen :: "('t, 'e) Result \<Rightarrow> ('t \<Rightarrow> ('u, 'e) Result) \<Rightarrow> ('u, 'e) Result" where
  "andThen (Ok v) f = f v"
| "andThen (Err e) f = Err e"

section \<open>Domain errors (errors.ts)\<close>

text \<open>
  Each error class extends \<^verbatim>\<open>Error\<close>: its constructor passes the prefixed text to
  \<^verbatim>\<open>super\<close>, which stores it as \<^verbatim>\<open>message\<close>, and then sets \<^verbatim>\<open>name\<close>. The argument of
  the constructor is not kept anywhere else.
\<close>

record ValidationIssue =
  field :: string
  message :: string

record Error =
  name :: string
  message :: string

definition EmailValidationError :: "string \<Rightarrow> Error" where
  "EmailValidationError m =
     \<lparr>name = ''EmailValidationError'', message = ''Email validation failed: '' @ m\<rparr>"

definition PasswordValidationError :: "string \<Rightarrow> Error" where
  "PasswordValidationError m =
     \<lparr>name = ''PasswordValidationError'', message = ''Password validation failed: '' @ m\<rparr>"

definition AgeValidationError :: "string \<Rightarrow> Error" where
  "AgeValidationError m =
     \<lparr>name = ''AgeValidationError'', message = ''Age validation failed: '' @ m\<rparr>"

definition DuplicateEmailError :: "string \<Rightarrow> Error" where
  "DuplicateEmailError email =
     \<lparr>name = ''DuplicateEmailError'', message = ''Email already registered: '' @ email\<rparr>"

definition DatabaseError :: "string \<Rightarrow> Error" where
  "DatabaseError m =
     \<lparr>name = ''DatabaseError'', message = ''Database error: '' @ m\<rparr>"

section \<open>The short-circuit validators (neverthrow.ts)\<close>

definition validateEmail_NeverThrow :: "string \<Rightarrow> (string, Error) Result" where
  "validateEmail_NeverThrow email =
     (if \<not> includes_str email ''@'' then Err (EmailValidationError ''Missing @ symbol'')
      else if \<not> includes_str email ''.'' then Err (EmailValidationError ''Missing domain'')
      else Ok (trim (toLowerCase email)))"

definition validatePassword_NeverThrow :: "string \<Rightarrow> (string, Error) Result" where
  "validatePassword_NeverThrow password =
     (if length password < 8 then Err (PasswordValidationError ''Too short'')
      else if \<not> test_A_Z password then Err (PasswordValidationError ''Missing uppercase'')
      else if \<not> test_0_9 password then Err (PasswordValidationError ''Missing number'')
      else Ok password)"

definition validateAge_NeverThrow :: "number \<Rightarrow> (number, Error) Result" where
  "validateAge_NeverThrow age =
     (if lt age (Num 13) then Err (AgeValidationError ''Must be 13 or older'')
      else if gt age (Num 120) then Err (AgeValidationError ''Invalid age'')
      else Ok age)"

text \<open>
  The duplicate-email lookup. \<^verbatim>\<open>checkEmailExists\<close> waits for a 10 ms timer and then
  answers from the text of the email; the timer is not modelled.
\<close>

definition checkEmailExists :: "string \<Rightarrow> bool" where
  "checkEmailExists email = includes_str email ''existing''"

definition findUserByEmail :: "string \<Rightarrow> (string, Error) Result" where
  "findUserByEmail email =
     (if checkEmailExists email then Err (DuplicateEmailError email) else Ok email)"

section \<open>Field validators and recovery (errors-as-values.ts)\<close>

definition validateEmail_Collect :: "string \<Rightarrow> (string, ValidationIssue) Result" where
  "validateEmail_Collect email =
     (if \<not> includes_str email ''@''
      then Err \<lparr>field = ''email'', ValidationIssue.message = ''Missing @ symbol''\<rparr>
      else if \<not> includes_str email ''.''
      then Err \<lparr>field = ''email'', ValidationIssue.message = ''Missing domain''\<rparr>
      else Ok (trim (toLowerCase email)))"

definition validatePassword_Collect :: "string \<Rightarrow> (string, ValidationIssue) Result" where
  "validatePassword_Collect password =
     (if length password < 8
      then Err \<lparr>field = ''password'', ValidationIssue.message = ''Too short''\<rparr>
      else Ok password)"

definition validateWithFallback :: "string \<Rightarrow> (string, Error) Result" where
  "validateWithFallback email =
     (let result = validateEmail_NeverThrow email
      in case result of
           Err error \<Rightarrow>
             (if includes_str (Error.message error) ''Missing @''
              then Ok ''user@default.com''
              else result)
         | Ok valid \<Rightarrow> result)"

section \<open>Payloads and composers\<close>

text \<open>
  The record fields \<open>email\<close>, \<open>password\<close> and \<open>age\<close> are constants from here on, so
  the functions below bind their parameters of the same names with \<open>\<lambda>\<close>.
\<close>

text \<open>
  \<^verbatim>\<open>UserPayload\<close> is \<^verbatim>\<open>{email, password, age}\<close>; the accumulating composer returns the
  object type \<^verbatim>\<open>{email, password}\<close>, of which \<^verbatim>\<open>UserPayload\<close> is the extension by \<^verbatim>\<open>age\<close>.
\<close>

record EmailAndPassword =
  email :: string
  password :: string

record UserPayload = EmailAndPassword +
  age :: number

text \<open>
  \<^verbatim>\<open>createUserPayload\<close> first prints a heading with \<^verbatim>\<open>console.log\<close>; the value it
  returns is the chain below.
\<close>

definition createUserPayload ::
  "string \<Rightarrow> string \<Rightarrow> number \<Rightarrow> (UserPayload, Error) Result" where
  "createUserPayload = (\<lambda>email password age.
     andThen
       (andThen (validateEmail_NeverThrow email)
          (\<lambda>validEmail.
             map_res (validatePassword_NeverThrow password)
               (\<lambda>validPassword. \<lparr>email = validEmail, password = validPassword, age = age\<rparr>)))
       (\<lambda>partial.
          map_res (validateAge_NeverThrow (UserPayload.age partial))
            (\<lambda>validAge. partial\<lparr>age := validAge\<rparr>)))"

text \<open>
  \<^verbatim>\<open>registerUser_NeverThrow\<close> returns no value: what it does is visible as the sequence
  of its \<^verbatim>\<open>console.log\<close> calls and of the lookups it awaits. The function has a single
  thread of control and each \<^verbatim>\<open>await\<close> is a sequence point, so the model returns that
  sequence. The console lines are kept by kind, with the text they are given; the two
  headings are the one of this function and the one of \<^verbatim>\<open>createUserPayload\<close>.
\<close>

datatype event =
    Heading string
  | LookupEmail string
  | RegistrationFailed string
  | AllValidationsPassed
  | ShowUserPayload UserPayload
  | RegistrationSuccessful string

definition registerUser_NeverThrow :: "string \<Rightarrow> string \<Rightarrow> number \<Rightarrow> event list" where
  "registerUser_NeverThrow = (\<lambda>email password age.
     [Heading (CHR 0x0A # ''--- 4.4: Async with ResultAsync ---''),
      Heading (CHR 0x0A # ''--- 4.3: Chaining with andThen() ---'')] @
     (case createUserPayload email password age of
        Err error \<Rightarrow> [RegistrationFailed (Error.message error)]
      | Ok payload \<Rightarrow>
          LookupEmail (EmailAndPassword.email payload) #
          (case findUserByEmail (EmailAndPassword.email payload) of
             Err error \<Rightarrow> [RegistrationFailed (Error.message error)]
           | Ok found \<Rightarrow>
               [AllValidationsPassed, ShowUserPayload payload,
                RegistrationSuccessful (EmailAndPassword.email payload)])))"

text \<open>
  Both results are computed before either is inspected; \<open>issues\<close> starts as the email
  issue and the password issue is pushed behind it.
\<close>

definition validateAll_Collect ::
  "string \<Rightarrow> string \<Rightarrow> (EmailAndPassword, ValidationIssue list) Result" where
  "validateAll_Collect = (\<lambda>email password.
     (let emailResult = validateEmail_Collect email;
          passwordResult = validatePassword_Collect password
      in case emailResult of
           Err emailIssue \<Rightarrow>
             (let issues = [emailIssue]
              in case passwordResult of
                   Err passwordIssue \<Rightarrow> Err (issues @ [passwordIssue])
                 | Ok validPassword \<Rightarrow> Err issues)
         | Ok validEmail \<Rightarrow>
             (case passwordResult of
                Err passwordIssue \<Rightarrow> Err [passwordIssue]
              | Ok validPassword \<Rightarrow> Ok \<lparr>email = validEmail, password = validPassword\<rparr>)))"

section \<open>Properties\<close>

subsection \<open>Strings\<close>

lemma includes_str_sublist: "includes_str s t = sublist t s"
proof (induction s)
  case Nil
  then show ?case by auto
next
  case (Cons c cs)
  have "prefix t (c # cs) = (take (length t) (c # cs) = t)"
    by (metis append_eq_conv_conj prefix_def append_take_drop_id)
  then show ?case
    using Cons by (auto simp: sublist_Cons_right)
qed

lemma includes_str_single: "includes_str s [c] = (c \<in> set s)"
  by (induction s) auto

text \<open>
  The numeric ranges of the model are the characters they stand for: \<open>is_A_Z\<close> holds
  of the letters \<open>A\<close> to \<open>Z\<close> and \<open>is_0_9\<close> of the digits, and \<open>toLowerCase\<close> maps
  the capital letters to the small ones and leaves small letters, digits and
  punctuation alone.
\<close>

lemma toLowerCase_letters:
  "toLowerCase ''ABCDEFGHIJKLMNOPQRSTUVWXYZ'' = ''abcdefghijklmnopqrstuvwxyz''"
  by code_simp

lemma toLowerCase_unchanged:
  "toLowerCase ''abcdefghijklmnopqrstuvwxyz0123456789@.-_+ '' =
     ''abcdefghijklmnopqrstuvwxyz0123456789@.-_+ ''"
  by code_simp

lemma list_all_A_Z: "list_all is_A_Z ''ABCDEFGHIJKLMNOPQRSTUVWXYZ''"
  by code_simp

lemma is_A_Z_iff: "is_A_Z c = (c \<in> set ''ABCDEFGHIJKLMNOPQRSTUVWXYZ'')"
proof
  assume "is_A_Z c"
  then have "65 \<le> (of_char c :: nat) \<and> (of_char c :: nat) < 91"
    by (simp add: is_A_Z_def Let_def)
  then have "of_char c \<in> set [65..<91::nat]"
    by (simp only: set_upt atLeastLessThan_iff)
  then have "char_of (of_char c :: nat) \<in> set (map char_of [65..<91::nat])"
    unfolding set_map by (rule imageI)
  moreover have "map char_of [65..<91::nat] = ''ABCDEFGHIJKLMNOPQRSTUVWXYZ''"
    by code_simp
  ultimately show "c \<in> set ''ABCDEFGHIJKLMNOPQRSTUVWXYZ''"
    by simp
next
  assume "c \<in> set ''ABCDEFGHIJKLMNOPQRSTUVWXYZ''"
  with list_all_A_Z show "is_A_Z c"
    unfolding list_all_iff by blast
qed

lemma is_0_9_iff: "is_0_9 c = (c \<in> set ''0123456789'')"
proof
  assume "is_0_9 c"
  then have "48 \<le> (of_char c :: nat) \<and> (of_char c :: nat) < 58"
    by (simp add: is_0_9_def Let_def)
  then have "of_char c \<in> set [48..<58::nat]"
    by (simp only: set_upt atLeastLessThan_iff)
  then have "char_of (of_char c :: nat) \<in> set (map char_of [48..<58::nat])"
    unfolding set_map by (rule imageI)
  moreover have "map char_of [48..<58::nat] = ''0123456789''"
    by code_simp
  ultimately show "c \<in> set ''0123456789''"
    by simp
next
  assume "c \<in> set ''0123456789''"
  moreover have "list_all is_0_9 ''0123456789''"
    by code_simp
  ultimately show "is_0_9 c"
    unfolding list_all_iff by blast
qed

lemma length_toLowerCase: "length (toLowerCase s) = length s"
  by (simp add: toLowerCase_def)


subsection \<open>validateEmail_NeverThrow\<close>

lemma validateEmail_NeverThrow_no_at:
  "CHR ''@'' \<notin> set e \<Longrightarrow>
   validateEmail_NeverThrow e = Err (EmailValidationError ''Missing @ symbol'')"
  by (simp add: validateEmail_NeverThrow_def includes_str_single)

lemma validateEmail_NeverThrow_no_dot:
  "CHR ''@'' \<in> set e \<Longrightarrow> CHR ''.'' \<notin> set e \<Longrightarrow>
   validateEmail_NeverThrow e = Err (EmailValidationError ''Missing domain'')"
  by (simp add: validateEmail_NeverThrow_def includes_str_single)

lemma validateEmail_NeverThrow_valid:
  "CHR ''@'' \<in> set e \<Longrightarrow> CHR ''.'' \<in> set e \<Longrightarrow>
   validateEmail_NeverThrow e = Ok (trim (toLowerCase e))"
  by (simp add: validateEmail_NeverThrow_def includes_str_single)

lemma validateEmail_NeverThrow_Ok:
  "validateEmail_NeverThrow e = Ok v \<Longrightarrow> v = trim (toLowerCase e)"
  by (auto simp: validateEmail_NeverThrow_def split: if_splits)

lemma validateEmail_NeverThrow_Err:
  "validateEmail_NeverThrow e = Err x \<Longrightarrow>
   x = EmailValidationError ''Missing @ symbol'' \<or> x = EmailValidationError ''Missing domain''"
  by (auto simp: validateEmail_NeverThrow_def split: if_splits)

text \<open>
  Claim C2, as stated, at the input \<open>bademail\<close>. The email has no \<open>@\<close> and the
  validator returns the Failure holding \<^verbatim>\<open>new EmailValidationError("Missing @ symbol")\<close>,
  but the message of that error is not "Missing @ symbol": the constructor has put
  "Email validation failed: " in front of it.
\<close>

theorem validateEmail_NeverThrow_message_counterexample:
  "CHR ''@'' \<notin> set ''bademail'' \<and>
   validateEmail_NeverThrow ''bademail'' = Err (EmailValidationError ''Missing @ symbol'') \<and>
   Error.message (EmailValidationError ''Missing @ symbol'') \<noteq> ''Missing @ symbol''"
  by (simp add: validateEmail_NeverThrow_def EmailValidationError_def)

text \<open>
  Claim C2, amended. For every string \<open>e\<close> given as email: without \<open>@\<close> the validator
  returns the Failure holding the EmailValidationError whose message is
  "Email validation failed: Missing @ symbol"; with \<open>@\<close> and without \<open>.\<close> the one whose
  message is "Email validation failed: Missing domain" (the check for \<open>.\<close> is reached only
  after the check for \<open>@\<close> has passed); otherwise it returns Success holding the email
  lowercased and then trimmed.
\<close>

theorem validateEmail_NeverThrow_cases:
  "(CHR ''@'' \<notin> set e \<longrightarrow>
      validateEmail_NeverThrow e =
        Err \<lparr>name = ''EmailValidationError'',
             message = ''Email validation failed: Missing @ symbol''\<rparr>) \<and>
   (CHR ''@'' \<in> set e \<and> CHR ''.'' \<notin> set e \<longrightarrow>
      validateEmail_NeverThrow e =
        Err \<lparr>name = ''EmailValidationError'',
             message = ''Email validation failed: Missing domain''\<rparr>) \<and>
   (CHR ''@'' \<in> set e \<and> CHR ''.'' \<in> set e \<longrightarrow>
      validateEmail_NeverThrow e = Ok (trim (toLowerCase e)))"
proof (intro conjI impI)
  assume "CHR ''@'' \<notin> set e"
  then show "validateEmail_NeverThrow e =
        Err \<lparr>name = ''EmailValidationError'',
             message = ''Email validation failed: Missing @ symbol''\<rparr>"
    by (simp add: validateEmail_NeverThrow_no_at EmailValidationError_def)
next
  assume "CHR ''@'' \<in> set e \<and> CHR ''.'' \<notin> set e"
  then show "validateEmail_NeverThrow e =
        Err \<lparr>name = ''EmailValidationError'',
             message = ''Email validation failed: Missing domain''\<rparr>"
    by (simp add: validateEmail_NeverThrow_no_dot EmailValidationError_def)
next
  assume "CHR ''@'' \<in> set e \<and> CHR ''.'' \<in> set e"
  then show "validateEmail_NeverThrow e = Ok (trim (toLowerCase e))"
    by (simp add: validateEmail_NeverThrow_valid)
qed

theorem validateEmail_NeverThrow_cases_witness:
  "validateEmail_NeverThrow ''bademail'' =
     Err \<lparr>name = ''EmailValidationError'',
          message = ''Email validation failed: Missing @ symbol''\<rparr> \<and>
   validateEmail_NeverThrow ''a@nodomain'' =
     Err \<lparr>name = ''EmailValidationError'',
          message = ''Email validation failed: Missing domain''\<rparr> \<and>
   validateEmail_NeverThrow '' Test@Example.COM  '' = Ok ''test@example.com''"
proof -
  have norm: "trim (toLowerCase '' Test@Example.COM  '') = ''test@example.com''"
    by code_simp
  show ?thesis
    using validateEmail_NeverThrow_cases [of "''bademail''"]
      validateEmail_NeverThrow_cases [of "''a@nodomain''"]
      validateEmail_NeverThrow_cases [of "'' Test@Example.COM  ''"]
    by (simp add: norm)
qed

subsection \<open>validatePassword_NeverThrow\<close>

lemma validatePassword_NeverThrow_Ok:
  "validatePassword_NeverThrow p = Ok v \<Longrightarrow> v = p"
  by (auto simp: validatePassword_NeverThrow_def split: if_splits)

lemma validatePassword_NeverThrow_Err:
  "validatePassword_NeverThrow p = Err x \<Longrightarrow>
   x = PasswordValidationError ''Too short'' \<or> x = PasswordValidationError ''Missing uppercase''
     \<or> x = PasswordValidationError ''Missing number''"
  by (auto simp: validatePassword_NeverThrow_def split: if_splits)

text \<open>
  Claim C3, as stated, at the input \<open>Ab1\<close>. The password is shorter than 8 and the
  validator returns the Failure holding \<^verbatim>\<open>new PasswordValidationError("Too short")\<close>,
  but the message of that error is not "Too short": the constructor has put
  "Password validation failed: " in front of it.
\<close>

theorem validatePassword_NeverThrow_message_counterexample:
  "length ''Ab1'' < 8 \<and>
   validatePassword_NeverThrow ''Ab1'' = Err (PasswordValidationError ''Too short'') \<and>
   Error.message (PasswordValidationError ''Too short'') \<noteq> ''Too short''"
  by (simp add: validatePassword_NeverThrow_def PasswordValidationError_def)

text \<open>
  Claim C3, amended. For every string \<open>p\<close> given as password: shorter than 8 code
  units, the validator returns the Failure holding the PasswordValidationError whose
  message is "Password validation failed: Too short"; else without a letter \<open>A\<close>-\<open>Z\<close>
  the one whose message is "Password validation failed: Missing uppercase"; else without
  a digit \<open>0\<close>-\<open>9\<close> the one whose message is "Password validation failed: Missing number";
  otherwise Success holding the password unchanged. Each rule is reached only when the
  ones before it hold.
\<close>

theorem validatePassword_NeverThrow_cases:
  "(length p < 8 \<longrightarrow>
      validatePassword_NeverThrow p =
        Err \<lparr>name = ''PasswordValidationError'',
             message = ''Password validation failed: Too short''\<rparr>) \<and>
   (8 \<le> length p \<and> \<not> test_A_Z p \<longrightarrow>
      validatePassword_NeverThrow p =
        Err \<lparr>name = ''PasswordValidationError'',
             message = ''Password validation failed: Missing uppercase''\<rparr>) \<and>
   (8 \<le> length p \<and> test_A_Z p \<and> \<not> test_0_9 p \<longrightarrow>
      validatePassword_NeverThrow p =
        Err \<lparr>name = ''PasswordValidationError'',
             message = ''Password validation failed: Missing number''\<rparr>) \<and>
   (8 \<le> length p \<and> test_A_Z p \<and> test_0_9 p \<longrightarrow> validatePassword_NeverThrow p = Ok p)"
  by (simp add: validatePassword_NeverThrow_def PasswordValidationError_def)

theorem validatePassword_NeverThrow_cases_witness:
  "validatePassword_NeverThrow ''Ab1'' =
     Err \<lparr>name = ''PasswordValidationError'',
          message = ''Password validation failed: Too short''\<rparr> \<and>
   validatePassword_NeverThrow ''alllowercase1'' =
     Err \<lparr>name = ''PasswordValidationError'',
          message = ''Password validation failed: Missing uppercase''\<rparr> \<and>
   validatePassword_NeverThrow ''NoDigitsHere'' =
     Err \<lparr>name = ''PasswordValidationError'',
          message = ''Password validation failed: Missing number''\<rparr> \<and>
   validatePassword_NeverThrow ''SecurePass123'' = Ok ''SecurePass123''"
proof -
  have short: "length ''Ab1'' < 8"
    by simp
  have lower: "8 \<le> length ''alllowercase1'' \<and> \<not> test_A_Z ''alllowercase1''"
    by (simp add: test_A_Z_def is_A_Z_def)
  have letters: "8 \<le> length ''NoDigitsHere'' \<and> test_A_Z ''NoDigitsHere'' \<and>
      \<not> test_0_9 ''NoDigitsHere''"
    by (simp add: test_A_Z_def is_A_Z_def test_0_9_def is_0_9_def)
  have good: "8 \<le> length ''SecurePass123'' \<and> test_A_Z ''SecurePass123'' \<and>
      test_0_9 ''SecurePass123''"
    by (simp add: test_A_Z_def is_A_Z_def test_0_9_def is_0_9_def)
  show ?thesis
    by (intro conjI
        validatePassword_NeverThrow_cases
          [of "''Ab1''", THEN conjunct1, rule_format, OF short]
        validatePassword_NeverThrow_cases
          [of "''alllowercase1''", THEN conjunct2, THEN conjunct1, rule_format, OF lower]
        validatePassword_NeverThrow_cases
          [of "''NoDigitsHere''", THEN conjunct2, THEN conjunct2, THEN conjunct1, rule_format,
            OF letters]
        validatePassword_NeverThrow_cases
          [of "''SecurePass123''", THEN conjunct2, THEN conjunct2, THEN conjunct2, rule_format,
            OF good])
qed

subsection \<open>validateAge_NeverThrow\<close>

lemma gt_not_lt: "gt a (Num b) \<Longrightarrow> lo \<le> b \<Longrightarrow> \<not> lt a (Num lo)"
  by (cases a) (simp_all add: gt_def)

text \<open>
  Claim C4, as stated, at the age 5. The age is below 13 and the validator returns the
  Failure holding \<^verbatim>\<open>new AgeValidationError("Must be 13 or older")\<close>, but the message of
  that error is not "Must be 13 or older": the constructor has put
  "Age validation failed: " in front of it.
\<close>

theorem validateAge_NeverThrow_message_counterexample:
  "lt (Num 5) (Num 13) \<and>
   validateAge_NeverThrow (Num 5) = Err (AgeValidationError ''Must be 13 or older'') \<and>
   Error.message (AgeValidationError ''Must be 13 or older'') \<noteq> ''Must be 13 or older''"
  by (simp add: validateAge_NeverThrow_def AgeValidationError_def)

text \<open>
  Claim C4, amended. For every number \<open>a\<close> given as age: below 13 the validator returns
  the Failure holding the AgeValidationError whose message is
  "Age validation failed: Must be 13 or older"; above 120 the one whose message is
  "Age validation failed: Invalid age"; and for every age from 13 to 120 it returns
  Success holding the age unchanged.
\<close>

theorem validateAge_NeverThrow_cases:
  "(lt a (Num 13) \<longrightarrow>
      validateAge_NeverThrow a =
        Err \<lparr>name = ''AgeValidationError'',
             message = ''Age validation failed: Must be 13 or older''\<rparr>) \<and>
   (gt a (Num 120) \<longrightarrow>
      validateAge_NeverThrow a =
        Err \<lparr>name = ''AgeValidationError'',
             message = ''Age validation failed: Invalid age''\<rparr>) \<and>
   (\<forall>r. a = Num r \<and> 13 \<le> r \<and> r \<le> 120 \<longrightarrow> validateAge_NeverThrow a = Ok a)"
proof -
  have low: "validateAge_NeverThrow a =
      Err \<lparr>name = ''AgeValidationError'',
           message = ''Age validation failed: Must be 13 or older''\<rparr>"
    if "lt a (Num 13)"
    using that by (simp add: validateAge_NeverThrow_def AgeValidationError_def)
  have high: "validateAge_NeverThrow a =
      Err \<lparr>name = ''AgeValidationError'', message = ''Age validation failed: Invalid age''\<rparr>"
    if above: "gt a (Num 120)"
  proof -
    from above have "\<not> lt a (Num 13)"
      by (rule gt_not_lt) simp
    with above show ?thesis
      by (simp add: validateAge_NeverThrow_def AgeValidationError_def)
  qed
  have range: "validateAge_NeverThrow a = Ok a" if "a = Num r \<and> 13 \<le> r \<and> r \<le> 120" for r
    using that by (simp add: validateAge_NeverThrow_def gt_def)
  from low high range show ?thesis
    by blast
qed

theorem validateAge_NeverThrow_cases_witness:
  "validateAge_NeverThrow (Num 5) =
     Err \<lparr>name = ''AgeValidationError'',
          message = ''Age validation failed: Must be 13 or older''\<rparr> \<and>
   validateAge_NeverThrow (Num 150) =
     Err \<lparr>name = ''AgeValidationError'', message = ''Age validation failed: Invalid age''\<rparr> \<and>
   validateAge_NeverThrow (Num 30) = Ok (Num 30) \<and>
   validateAge_NeverThrow (Num 13) = Ok (Num 13) \<and>
   validateAge_NeverThrow (Num 120) = Ok (Num 120)"
proof -
  have low: "lt (Num 5) (Num 13)" and high: "gt (Num 150) (Num 120)"
    by (simp_all add: gt_def)
  have range: "Num r = Num r \<and> 13 \<le> r \<and> r \<le> 120" if "13 \<le> r" "r \<le> 120" for r :: real
    using that by simp
  show ?thesis
    by (intro conjI
        validateAge_NeverThrow_cases [of "Num 5", THEN conjunct1, rule_format, OF low]
        validateAge_NeverThrow_cases
          [of "Num 150", THEN conjunct2, THEN conjunct1, rule_format, OF high]
        validateAge_NeverThrow_cases
          [of "Num 30", THEN conjunct2, THEN conjunct2, rule_format, OF range]
        validateAge_NeverThrow_cases
          [of "Num 13", THEN conjunct2, THEN conjunct2, rule_format, OF range]
        validateAge_NeverThrow_cases
          [of "Num 120", THEN conjunct2, THEN conjunct2, rule_format, OF range])
      simp_all
qed

text \<open>
  Outside the three cases there is only \<^verbatim>\<open>NaN\<close>, for which both comparisons are false:
  the validator returns it as a Success.
\<close>

lemma validateAge_NeverThrow_NaN: "validateAge_NeverThrow NaN = Ok NaN"
  by (simp add: validateAge_NeverThrow_def gt_def)

subsection \<open>The Result combinators\<close>

lemma isOk_conv: "isOk r = (\<exists>v. r = Ok v)"
  by (cases r) simp_all

lemma isErr_conv: "isErr r = (\<exists>x. r = Err x)"
  by (cases r) simp_all

lemma foldl_andThen_Err: "foldl andThen (Err f) gs = Err f"
  by (induction gs) simp_all

lemma createUserPayload_chain:
  "createUserPayload e p a =
     (case validateEmail_NeverThrow e of
        Err x \<Rightarrow> Err x
      | Ok validEmail \<Rightarrow>
          (case validatePassword_NeverThrow p of
             Err x \<Rightarrow> Err x
           | Ok validPassword \<Rightarrow>
               (case validateAge_NeverThrow a of
                  Err x \<Rightarrow> Err x
                | Ok validAge \<Rightarrow>
                    Ok \<lparr>email = validEmail, password = validPassword, age = validAge\<rparr>)))"
  by (simp add: createUserPayload_def split: Result.splits)

lemma validateAge_NeverThrow_Ok: "validateAge_NeverThrow a = Ok v \<Longrightarrow> v = a"
  by (auto simp: validateAge_NeverThrow_def split: if_splits)

text \<open>
  Claim C7. For every Failure \<open>Err f\<close> and every function \<open>g\<close> from values to Results,
  \<open>andThen (Err f) g\<close> is \<open>Err f\<close> itself, with the same error value. The equation
  holds whatever \<open>g\<close> is, so \<open>g\<close> has no part in the result. Consequently a chain of
  \<open>andThen\<close> calls that starts from a Failure ends in that Failure: two calls, any list
  of calls, and the chain of \<open>createUserPayload\<close>, which returns the Failure of the email
  validator untouched.
\<close>

theorem andThen_short_circuit:
  "andThen (Err f) g = Err f \<and>
   andThen (andThen (Err f) g) h = Err f \<and>
   foldl andThen (Err f) gs = Err f \<and>
   (\<forall>x. validateEmail_NeverThrow e = Err x \<longrightarrow> createUserPayload e p a = Err x)"
  by (simp add: foldl_andThen_Err createUserPayload_chain)

theorem andThen_short_circuit_witness:
  "andThen (Err (EmailValidationError ''Missing @ symbol'')) validatePassword_NeverThrow =
     Err (EmailValidationError ''Missing @ symbol'') \<and>
   createUserPayload ''bademail'' ''SecurePass123'' (Num 30) =
     Err (EmailValidationError ''Missing @ symbol'')"
proof -
  have "validateEmail_NeverThrow ''bademail'' = Err (EmailValidationError ''Missing @ symbol'')"
    by (simp add: validateEmail_NeverThrow_no_at)
  then show ?thesis
    using andThen_short_circuit
      [of "EmailValidationError ''Missing @ symbol''" validatePassword_NeverThrow
          validateEmail_NeverThrow "[validatePassword_NeverThrow, validateEmail_NeverThrow]"
          "''bademail''" "''SecurePass123''" "Num 30"]
    by blast
qed

subsection \<open>createUserPayload\<close>

text \<open>
  Claim C1. For every email \<open>e\<close>, password \<open>p\<close> and age \<open>a\<close>: a Failure of
  \<open>createUserPayload\<close> is the error of the first validator that fails, in the order
  email, password, age; when all three validators succeed the result is Success holding
  the lowercased and trimmed email, the password unchanged and the age unchanged; and a
  Success is returned only in that case, with that payload.
\<close>

theorem createUserPayload_cases:
  "(\<forall>x. validateEmail_NeverThrow e = Err x \<longrightarrow> createUserPayload e p a = Err x) \<and>
   (\<forall>x. isOk (validateEmail_NeverThrow e) \<and> validatePassword_NeverThrow p = Err x \<longrightarrow>
      createUserPayload e p a = Err x) \<and>
   (\<forall>x. isOk (validateEmail_NeverThrow e) \<and> isOk (validatePassword_NeverThrow p) \<and>
        validateAge_NeverThrow a = Err x \<longrightarrow>
      createUserPayload e p a = Err x) \<and>
   (isOk (validateEmail_NeverThrow e) \<and> isOk (validatePassword_NeverThrow p) \<and>
    isOk (validateAge_NeverThrow a) \<longrightarrow>
      createUserPayload e p a =
        Ok \<lparr>email = trim (toLowerCase e), password = p, age = a\<rparr>) \<and>
   (\<forall>payload. createUserPayload e p a = Ok payload \<longrightarrow>
      isOk (validateEmail_NeverThrow e) \<and> isOk (validatePassword_NeverThrow p) \<and>
      isOk (validateAge_NeverThrow a) \<and>
      payload = \<lparr>email = trim (toLowerCase e), password = p, age = a\<rparr>)"
proof -
  have first: "createUserPayload e p a = Err x" if "validateEmail_NeverThrow e = Err x" for x
    using that by (simp add: createUserPayload_chain)
  have second: "createUserPayload e p a = Err x"
    if "isOk (validateEmail_NeverThrow e)" "validatePassword_NeverThrow p = Err x" for x
    using that by (auto simp: createUserPayload_chain isOk_conv)
  have third: "createUserPayload e p a = Err x"
    if "isOk (validateEmail_NeverThrow e)" "isOk (validatePassword_NeverThrow p)"
      "validateAge_NeverThrow a = Err x" for x
    using that by (auto simp: createUserPayload_chain isOk_conv)
  have success: "createUserPayload e p a =
      Ok \<lparr>email = trim (toLowerCase e), password = p, age = a\<rparr>"
    if "isOk (validateEmail_NeverThrow e)" "isOk (validatePassword_NeverThrow p)"
      "isOk (validateAge_NeverThrow a)"
    using that
    by (auto simp: createUserPayload_chain isOk_conv
        dest: validateEmail_NeverThrow_Ok validatePassword_NeverThrow_Ok validateAge_NeverThrow_Ok)
  have only: "isOk (validateEmail_NeverThrow e) \<and> isOk (validatePassword_NeverThrow p) \<and>
      isOk (validateAge_NeverThrow a) \<and>
      payload = \<lparr>email = trim (toLowerCase e), password = p, age = a\<rparr>"
    if ok: "createUserPayload e p a = Ok payload" for payload
  proof -
    from ok obtain ve vp va where
      "validateEmail_NeverThrow e = Ok ve" "validatePassword_NeverThrow p = Ok vp"
      "validateAge_NeverThrow a = Ok va"
      "payload = \<lparr>email = ve, password = vp, age = va\<rparr>"
      by (auto simp: createUserPayload_chain split: Result.splits)
    then show ?thesis
      by (auto dest: validateEmail_NeverThrow_Ok validatePassword_NeverThrow_Ok
          validateAge_NeverThrow_Ok)
  qed
  from first second third success only show ?thesis
    by blast
qed

theorem createUserPayload_cases_witness:
  "createUserPayload ''Test@Example.COM'' ''SecurePass123'' (Num 30) =
     Ok \<lparr>email = ''test@example.com'', password = ''SecurePass123'', age = Num 30\<rparr> \<and>
   createUserPayload ''bademail'' ''short'' (Num 5) =
     Err (EmailValidationError ''Missing @ symbol'') \<and>
   Error.name (EmailValidationError ''Missing @ symbol'') = ''EmailValidationError'' \<and>
   createUserPayload ''a@b.com'' ''short'' (Num 5) =
     Err (PasswordValidationError ''Too short'') \<and>
   createUserPayload ''a@b.com'' ''SecurePass123'' (Num 5) =
     Err (AgeValidationError ''Must be 13 or older'')"
proof -
  have norm: "trim (toLowerCase ''Test@Example.COM'') = ''test@example.com''"
    by code_simp
  have email1: "isOk (validateEmail_NeverThrow ''Test@Example.COM'')"
    by (simp add: validateEmail_NeverThrow_def)
  have email2: "isOk (validateEmail_NeverThrow ''a@b.com'')"
    by (simp add: validateEmail_NeverThrow_def)
  have bad: "validateEmail_NeverThrow ''bademail'' = Err (EmailValidationError ''Missing @ symbol'')"
    by (simp add: validateEmail_NeverThrow_no_at)
  have pass1: "isOk (validatePassword_NeverThrow ''SecurePass123'')"
    by (simp add: validatePassword_NeverThrow_def test_A_Z_def is_A_Z_def test_0_9_def
        is_0_9_def)
  have pass2: "validatePassword_NeverThrow ''short'' = Err (PasswordValidationError ''Too short'')"
    by (simp add: validatePassword_NeverThrow_def)
  have age1: "isOk (validateAge_NeverThrow (Num 30))"
    by (simp add: validateAge_NeverThrow_def gt_def)
  have age2: "validateAge_NeverThrow (Num 5) = Err (AgeValidationError ''Must be 13 or older'')"
    by (simp add: validateAge_NeverThrow_def)
  note success = createUserPayload_cases
    [of "''Test@Example.COM''" "''SecurePass123''" "Num 30",
      THEN conjunct2, THEN conjunct2, THEN conjunct2, THEN conjunct1, rule_format,
      OF conjI [OF email1 conjI [OF pass1 age1]], unfolded norm]
  note first = createUserPayload_cases
    [of "''bademail''" "''short''" "Num 5", THEN conjunct1, rule_format, OF bad]
  note second = createUserPayload_cases
    [of "''a@b.com''" "''short''" "Num 5", THEN conjunct2, THEN conjunct1, rule_format,
      OF conjI [OF email2 pass2]]
  note third = createUserPayload_cases
    [of "''a@b.com''" "''SecurePass123''" "Num 5",
      THEN conjunct2, THEN conjunct2, THEN conjunct1, rule_format,
      OF conjI [OF email2 conjI [OF pass1 age2]]]
  have tag: "Error.name (EmailValidationError ''Missing @ symbol'') = ''EmailValidationError''"
    by (simp add: EmailValidationError_def)
  show ?thesis
    by (intro conjI success first second third tag)
qed

subsection \<open>registerUser_NeverThrow\<close>

lemma findUserByEmail_cases:
  "findUserByEmail s = (if checkEmailExists s then Err (DuplicateEmailError s) else Ok s)"
  by (simp add: findUserByEmail_def)

text \<open>
  Claim C8. For every email \<open>e\<close>, password \<open>p\<close> and age \<open>a\<close>: when
  \<open>createUserPayload\<close> fails, no lookup occurs anywhere in the run of
  \<open>registerUser_NeverThrow\<close>, which after its two headings only reports the failure with
  the message of that error; when it succeeds and the lookup finds the email of the payload
  registered, the run after the headings is that one lookup followed by the failure report
  with the message of the DuplicateEmailError for that email; otherwise it is the lookup
  followed by the lines of a successful registration, with the payload.
\<close>

theorem registerUser_NeverThrow_cases:
  "(\<forall>x. createUserPayload e p a = Err x \<longrightarrow>
      (\<forall>s. LookupEmail s \<notin> set (registerUser_NeverThrow e p a)) \<and>
      drop 2 (registerUser_NeverThrow e p a) = [RegistrationFailed (Error.message x)]) \<and>
   (\<forall>payload. createUserPayload e p a = Ok payload \<and>
        checkEmailExists (EmailAndPassword.email payload) \<longrightarrow>
      drop 2 (registerUser_NeverThrow e p a) =
        [LookupEmail (EmailAndPassword.email payload),
         RegistrationFailed
           (Error.message (DuplicateEmailError (EmailAndPassword.email payload)))]) \<and>
   (\<forall>payload. createUserPayload e p a = Ok payload \<and>
        \<not> checkEmailExists (EmailAndPassword.email payload) \<longrightarrow>
      drop 2 (registerUser_NeverThrow e p a) =
        [LookupEmail (EmailAndPassword.email payload), AllValidationsPassed,
         ShowUserPayload payload, RegistrationSuccessful (EmailAndPassword.email payload)])"
  by (simp add: registerUser_NeverThrow_def findUserByEmail_cases)


theorem registerUser_NeverThrow_cases_witness:
  "LookupEmail ''bademail'' \<notin> set (registerUser_NeverThrow ''bademail'' ''short'' (Num 5)) \<and>
   drop 2 (registerUser_NeverThrow ''bademail'' ''short'' (Num 5)) =
     [RegistrationFailed ''Email validation failed: Missing @ symbol''] \<and>
   drop 2 (registerUser_NeverThrow ''Existing@Example.com'' ''SecurePass123'' (Num 30)) =
     [LookupEmail ''existing@example.com'',
      RegistrationFailed ''Email already registered: existing@example.com''] \<and>
   drop 2 (registerUser_NeverThrow ''new@example.com'' ''SecurePass123'' (Num 30)) =
     [LookupEmail ''new@example.com'', AllValidationsPassed,
      ShowUserPayload
        \<lparr>email = ''new@example.com'', password = ''SecurePass123'', age = Num 30\<rparr>,
      RegistrationSuccessful ''new@example.com'']"
proof -
  have bad: "createUserPayload ''bademail'' ''short'' (Num 5) =
      Err (EmailValidationError ''Missing @ symbol'')"
    by (simp add: createUserPayload_chain validateEmail_NeverThrow_no_at)
  have dup: "createUserPayload ''Existing@Example.com'' ''SecurePass123'' (Num 30) =
      Ok \<lparr>email = ''existing@example.com'', password = ''SecurePass123'', age = Num 30\<rparr>"
    by code_simp
  have new: "createUserPayload ''new@example.com'' ''SecurePass123'' (Num 30) =
      Ok \<lparr>email = ''new@example.com'', password = ''SecurePass123'', age = Num 30\<rparr>"
    by code_simp
  have known: "checkEmailExists (EmailAndPassword.email
      \<lparr>email = ''existing@example.com'', password = ''SecurePass123'', age = Num 30\<rparr>)"
    by (simp add: checkEmailExists_def)
  have unknown: "\<not> checkEmailExists (EmailAndPassword.email
      \<lparr>email = ''new@example.com'', password = ''SecurePass123'', age = Num 30\<rparr>)"
    by (simp add: checkEmailExists_def)
  note failed = registerUser_NeverThrow_cases
    [of "''bademail''" "''short''" "Num 5", THEN conjunct1, rule_format, OF bad]
  have first: "LookupEmail ''bademail'' \<notin> set (registerUser_NeverThrow ''bademail'' ''short'' (Num 5))"
    using failed by (rule conjunct1 [THEN spec])
  have second: "drop 2 (registerUser_NeverThrow ''bademail'' ''short'' (Num 5)) =
      [RegistrationFailed ''Email validation failed: Missing @ symbol'']"
    using failed [THEN conjunct2] by (simp add: EmailValidationError_def)
  have third: "drop 2 (registerUser_NeverThrow ''Existing@Example.com'' ''SecurePass123'' (Num 30)) =
      [LookupEmail ''existing@example.com'',
       RegistrationFailed ''Email already registered: existing@example.com'']"
    using registerUser_NeverThrow_cases
      [of "''Existing@Example.com''" "''SecurePass123''" "Num 30",
        THEN conjunct2, THEN conjunct1, rule_format,
        OF conjI [OF dup known]]
    by (simp add: DuplicateEmailError_def)
  have fourth: "drop 2 (registerUser_NeverThrow ''new@example.com'' ''SecurePass123'' (Num 30)) =
     [LookupEmail ''new@example.com'', AllValidationsPassed,
      ShowUserPayload
        \<lparr>email = ''new@example.com'', password = ''SecurePass123'', age = Num 30\<rparr>,
      RegistrationSuccessful ''new@example.com'']"
    using registerUser_NeverThrow_cases
      [of "''new@example.com''" "''SecurePass123''" "Num 30",
        THEN conjunct2, THEN conjunct2, rule_format,
        OF conjI [OF new unknown]]
    by simp
  show ?thesis
    by (intro conjI first second third fourth)
qed

subsection \<open>The error classes\<close>

lemma validateAge_NeverThrow_Err:
  "validateAge_NeverThrow a = Err x \<Longrightarrow>
   x = AgeValidationError ''Must be 13 or older'' \<or> x = AgeValidationError ''Invalid age''"
  by (auto simp: validateAge_NeverThrow_def split: if_splits)

lemma findUserByEmail_Err: "findUserByEmail s = Err x \<Longrightarrow> x = DuplicateEmailError s"
  by (auto simp: findUserByEmail_def split: if_splits)

text \<open>
  Claim C9. Each of the five error classes sets \<open>name\<close> to its class name and \<open>message\<close>
  to the prefix of its kind followed by the text it is constructed with. So the message of
  every Failure of a validator or of the lookup is the prefixed form, for instance
  "Email validation failed: Missing @ symbol", and not the rule text alone.
\<close>

theorem domain_errors_name_and_message:
  "Error.name (EmailValidationError m) = ''EmailValidationError'' \<and>
   Error.message (EmailValidationError m) = ''Email validation failed: '' @ m \<and>
   Error.name (PasswordValidationError m) = ''PasswordValidationError'' \<and>
   Error.message (PasswordValidationError m) = ''Password validation failed: '' @ m \<and>
   Error.name (AgeValidationError m) = ''AgeValidationError'' \<and>
   Error.message (AgeValidationError m) = ''Age validation failed: '' @ m \<and>
   Error.name (DuplicateEmailError m) = ''DuplicateEmailError'' \<and>
   Error.message (DuplicateEmailError m) = ''Email already registered: '' @ m \<and>
   Error.name (DatabaseError m) = ''DatabaseError'' \<and>
   Error.message (DatabaseError m) = ''Database error: '' @ m \<and>
   (\<forall>x. validateEmail_NeverThrow e = Err x \<longrightarrow>
      Error.name x = ''EmailValidationError'' \<and>
      (Error.message x = ''Email validation failed: Missing @ symbol'' \<or>
       Error.message x = ''Email validation failed: Missing domain'')) \<and>
   (\<forall>x. validatePassword_NeverThrow p = Err x \<longrightarrow>
      Error.name x = ''PasswordValidationError'' \<and>
      (Error.message x = ''Password validation failed: Too short'' \<or>
       Error.message x = ''Password validation failed: Missing uppercase'' \<or>
       Error.message x = ''Password validation failed: Missing number'')) \<and>
   (\<forall>x. validateAge_NeverThrow a = Err x \<longrightarrow>
      Error.name x = ''AgeValidationError'' \<and>
      (Error.message x = ''Age validation failed: Must be 13 or older'' \<or>
       Error.message x = ''Age validation failed: Invalid age'')) \<and>
   (\<forall>x. findUserByEmail s = Err x \<longrightarrow>
      Error.name x = ''DuplicateEmailError'' \<and>
      Error.message x = ''Email already registered: '' @ s)"
proof -
  have classes:
    "Error.name (EmailValidationError m) = ''EmailValidationError''"
    "Error.message (EmailValidationError m) = ''Email validation failed: '' @ m"
    "Error.name (PasswordValidationError m) = ''PasswordValidationError''"
    "Error.message (PasswordValidationError m) = ''Password validation failed: '' @ m"
    "Error.name (AgeValidationError m) = ''AgeValidationError''"
    "Error.message (AgeValidationError m) = ''Age validation failed: '' @ m"
    "Error.name (DuplicateEmailError m) = ''DuplicateEmailError''"
    "Error.message (DuplicateEmailError m) = ''Email already registered: '' @ m"
    "Error.name (DatabaseError m) = ''DatabaseError''"
    "Error.message (DatabaseError m) = ''Database error: '' @ m"
    by (simp_all add: EmailValidationError_def PasswordValidationError_def
        AgeValidationError_def DuplicateEmailError_def DatabaseError_def)
  have email: "Error.name x = ''EmailValidationError'' \<and>
      (Error.message x = ''Email validation failed: Missing @ symbol'' \<or>
       Error.message x = ''Email validation failed: Missing domain'')"
    if "validateEmail_NeverThrow e = Err x" for x
    using validateEmail_NeverThrow_Err [OF that] by (auto simp: EmailValidationError_def)
  have password: "Error.name x = ''PasswordValidationError'' \<and>
      (Error.message x = ''Password validation failed: Too short'' \<or>
       Error.message x = ''Password validation failed: Missing uppercase'' \<or>
       Error.message x = ''Password validation failed: Missing number'')"
    if "validatePassword_NeverThrow p = Err x" for x
    using validatePassword_NeverThrow_Err [OF that] by (auto simp: PasswordValidationError_def)
  have age: "Error.name x = ''AgeValidationError'' \<and>
      (Error.message x = ''Age validation failed: Must be 13 or older'' \<or>
       Error.message x = ''Age validation failed: Invalid age'')"
    if "validateAge_NeverThrow a = Err x" for x
    using validateAge_NeverThrow_Err [OF that] by (auto simp: AgeValidationError_def)
  have lookup: "Error.name x = ''DuplicateEmailError'' \<and>
      Error.message x = ''Email already registered: '' @ s"
    if "findUserByEmail s = Err x" for x
    using findUserByEmail_Err [OF that] by (simp add: DuplicateEmailError_def)
  from email password age lookup show ?thesis
    unfolding classes by blast
qed

theorem domain_errors_name_and_message_witness:
  "Error.name (EmailValidationError ''Missing @ symbol'') = ''EmailValidationError'' \<and>
   (Error.message (EmailValidationError ''Missing @ symbol'') =
      ''Email validation failed: Missing @ symbol'' \<or>
    Error.message (EmailValidationError ''Missing @ symbol'') =
      ''Email validation failed: Missing domain'')"
proof -
  have bad: "validateEmail_NeverThrow ''bademail'' = Err (EmailValidationError ''Missing @ symbol'')"
    by (simp add: validateEmail_NeverThrow_no_at)
  show ?thesis
    by (rule domain_errors_name_and_message
        [of "''Missing @ symbol''" "''bademail''" "''short''" "Num 5" "''existing@example.com''",
          THEN conjunct2, THEN conjunct2, THEN conjunct2, THEN conjunct2, THEN conjunct2,
          THEN conjunct2, THEN conjunct2, THEN conjunct2, THEN conjunct2, THEN conjunct2,
          THEN conjunct1, rule_format, OF bad])
qed

subsection \<open>The accumulating validators\<close>

lemma validatePassword_Collect_Ok: "validatePassword_Collect p = Ok v \<Longrightarrow> v = p"
  by (auto simp: validatePassword_Collect_def split: if_splits)

lemma validateEmail_Collect_Ok:
  "validateEmail_Collect e = Ok v \<Longrightarrow> v = trim (toLowerCase e)"
  by (auto simp: validateEmail_Collect_def split: if_splits)

lemma validateEmail_Collect_Err: "validateEmail_Collect e = Err i \<Longrightarrow> field i = ''email''"
  by (auto simp: validateEmail_Collect_def split: if_splits)

lemma validatePassword_Collect_Err:
  "validatePassword_Collect p = Err i \<Longrightarrow> field i = ''password''"
  by (auto simp: validatePassword_Collect_def split: if_splits)

text \<open>
  Claim C10. \<open>validatePassword_Collect\<close> returns Success holding the password for every
  password of at least 8 code units, and the Failure \<^verbatim>\<open>{field: "password", message: "Too short"}\<close>
  for every shorter one; it looks at neither letters nor digits. Hence every password of
  length 8 or more without a letter \<open>A\<close>-\<open>Z\<close> passes it and fails
  \<open>validatePassword_NeverThrow\<close>, and there is such a password.
\<close>

theorem validatePassword_Collect_cases:
  "(8 \<le> length p \<longrightarrow> validatePassword_Collect p = Ok p) \<and>
   (length p < 8 \<longrightarrow>
      validatePassword_Collect p =
        Err \<lparr>field = ''password'', ValidationIssue.message = ''Too short''\<rparr>) \<and>
   (8 \<le> length p \<and> \<not> test_A_Z p \<longrightarrow>
      isOk (validatePassword_Collect p) \<and> isErr (validatePassword_NeverThrow p)) \<and>
   (\<exists>q. isOk (validatePassword_Collect q) \<and> isErr (validatePassword_NeverThrow q))"
proof -
  have "isOk (validatePassword_Collect ''alllowercase'')"
    by (simp add: validatePassword_Collect_def)
  moreover have "isErr (validatePassword_NeverThrow ''alllowercase'')"
    by (simp add: validatePassword_NeverThrow_def test_A_Z_def is_A_Z_def)
  ultimately have "\<exists>q. isOk (validatePassword_Collect q) \<and> isErr (validatePassword_NeverThrow q)"
    by blast
  then show ?thesis
    by (simp add: validatePassword_Collect_def validatePassword_NeverThrow_def)
qed

theorem validatePassword_Collect_cases_witness:
  "validatePassword_Collect ''alllowercase'' = Ok ''alllowercase'' \<and>
   isErr (validatePassword_NeverThrow ''alllowercase'') \<and>
   validatePassword_Collect ''short'' =
     Err \<lparr>field = ''password'', ValidationIssue.message = ''Too short''\<rparr>"
proof -
  have long: "8 \<le> length ''alllowercase''" and short: "length ''short'' < 8"
    by simp_all
  have lower: "\<not> test_A_Z ''alllowercase''"
    by (simp add: test_A_Z_def is_A_Z_def)
  note t = validatePassword_Collect_cases [of "''alllowercase''"]
  show ?thesis
    by (intro conjI t [THEN conjunct1, rule_format, OF long]
        t [THEN conjunct2, THEN conjunct2, THEN conjunct1, rule_format,
          OF conjI [OF long lower], THEN conjunct2]
        validatePassword_Collect_cases
          [of "''short''", THEN conjunct2, THEN conjunct1, rule_format, OF short])
qed

text \<open>
  Claim C5. For every email \<open>e\<close> and password \<open>p\<close>, \<open>validateAll_Collect\<close> uses the
  results of both field validators. When both fail, the Failure holds the two issues, the
  one of the email (field "email") first and the one of the password (field "password")
  second, never the first alone; when one fails, the Failure holds that issue; when both
  succeed, the Success holds the lowercased and trimmed email and the password.
\<close>

theorem validateAll_Collect_cases:
  "(\<forall>emailIssue passwordIssue.
      validateEmail_Collect e = Err emailIssue \<and>
      validatePassword_Collect p = Err passwordIssue \<longrightarrow>
      validateAll_Collect e p = Err [emailIssue, passwordIssue] \<and>
      field emailIssue = ''email'' \<and> field passwordIssue = ''password'') \<and>
   (\<forall>emailIssue.
      validateEmail_Collect e = Err emailIssue \<and> isOk (validatePassword_Collect p) \<longrightarrow>
      validateAll_Collect e p = Err [emailIssue]) \<and>
   (\<forall>passwordIssue.
      isOk (validateEmail_Collect e) \<and> validatePassword_Collect p = Err passwordIssue \<longrightarrow>
      validateAll_Collect e p = Err [passwordIssue]) \<and>
   (isOk (validateEmail_Collect e) \<and> isOk (validatePassword_Collect p) \<longrightarrow>
      validateAll_Collect e p = Ok \<lparr>email = trim (toLowerCase e), password = p\<rparr>)"
proof -
  have both: "validateAll_Collect e p = Err [i, j] \<and> field i = ''email'' \<and> field j = ''password''"
    if "validateEmail_Collect e = Err i" "validatePassword_Collect p = Err j" for i j
    using that
    by (simp add: validateAll_Collect_def validateEmail_Collect_Err validatePassword_Collect_Err)
  have email_only: "validateAll_Collect e p = Err [i]"
    if "validateEmail_Collect e = Err i" "isOk (validatePassword_Collect p)" for i
    using that by (auto simp: validateAll_Collect_def isOk_conv)
  have password_only: "validateAll_Collect e p = Err [j]"
    if "isOk (validateEmail_Collect e)" "validatePassword_Collect p = Err j" for j
    using that by (auto simp: validateAll_Collect_def isOk_conv)
  have success: "validateAll_Collect e p = Ok \<lparr>email = trim (toLowerCase e), password = p\<rparr>"
    if "isOk (validateEmail_Collect e)" "isOk (validatePassword_Collect p)"
    using that
    by (auto simp: validateAll_Collect_def isOk_conv
        dest: validateEmail_Collect_Ok validatePassword_Collect_Ok)
  from both email_only password_only success show ?thesis
    by blast
qed

theorem validateAll_Collect_cases_witness:
  "validateAll_Collect ''bad'' ''short'' =
     Err [\<lparr>field = ''email'', ValidationIssue.message = ''Missing @ symbol''\<rparr>,
          \<lparr>field = ''password'', ValidationIssue.message = ''Too short''\<rparr>] \<and>
   validateAll_Collect ''a@b.com'' ''LongPass1'' =
     Ok \<lparr>email = ''a@b.com'', password = ''LongPass1''\<rparr>"
proof -
  have bad: "validateEmail_Collect ''bad'' =
      Err \<lparr>field = ''email'', ValidationIssue.message = ''Missing @ symbol''\<rparr>"
    by (simp add: validateEmail_Collect_def)
  have short: "validatePassword_Collect ''short'' =
      Err \<lparr>field = ''password'', ValidationIssue.message = ''Too short''\<rparr>"
    by (simp add: validatePassword_Collect_def)
  have good: "isOk (validateEmail_Collect ''a@b.com'')"
    by (simp add: validateEmail_Collect_def)
  have long: "isOk (validatePassword_Collect ''LongPass1'')"
    by (simp add: validatePassword_Collect_def)
  have norm: "trim (toLowerCase ''a@b.com'') = ''a@b.com''"
    by code_simp
  show ?thesis
    by (intro conjI
        validateAll_Collect_cases
          [of "''bad''" "''short''", THEN conjunct1, rule_format, OF conjI [OF bad short],
            THEN conjunct1]
        validateAll_Collect_cases
          [of "''a@b.com''" "''LongPass1''", THEN conjunct2, THEN conjunct2, THEN conjunct2,
            rule_format, OF conjI [OF good long], unfolded norm])
qed

subsection \<open>validateWithFallback\<close>

lemma includes_Missing_at:
  "includes_str (Error.message (EmailValidationError ''Missing @ symbol'')) ''Missing @''"
  "\<not> includes_str (Error.message (EmailValidationError ''Missing domain'')) ''Missing @''"
  by (simp_all add: EmailValidationError_def)

text \<open>
  Claim C6, as stated, at the input \<open>user@default.com\<close>. The email passes both checks, so
  validation does not fail, and \<open>validateWithFallback\<close> returns the Success
  "user@default.com" of the validator from its last line: this Success is returned
  without a Failure whose message contains "Missing @".
\<close>

theorem validateWithFallback_exactly_when_counterexample:
  "validateWithFallback ''user@default.com'' = Ok ''user@default.com'' \<and>
   validateEmail_NeverThrow ''user@default.com'' = Ok ''user@default.com'' \<and>
   \<not> isErr (validateEmail_NeverThrow ''user@default.com'')"
proof -
  have valid: "validateEmail_NeverThrow ''user@default.com'' = Ok ''user@default.com''"
    by code_simp
  then show ?thesis
    by (simp add: validateWithFallback_def)
qed

text \<open>
  Claim C6, amended. For every email \<open>e\<close>: \<open>validateWithFallback\<close> substitutes Success
  "user@default.com" for the result of \<open>validateEmail_NeverThrow\<close> exactly when that
  result is a Failure whose message contains "Missing @"; every other Failure is returned
  unchanged, and a Success is returned unchanged. So Success "user@default.com" is
  returned exactly when validation fails in that way or succeeds with that very email.
  An email without \<open>@\<close> is recovered; an email with \<open>@\<close> and without \<open>.\<close>, such as
  \<open>a@nodomain\<close>, keeps its "Missing domain" Failure.
\<close>

theorem validateWithFallback_cases:
  "((validateWithFallback e \<noteq> validateEmail_NeverThrow e) =
      (\<exists>x. validateEmail_NeverThrow e = Err x \<and>
           includes_str (Error.message x) ''Missing @'')) \<and>
   (\<forall>x. validateEmail_NeverThrow e = Err x \<and> includes_str (Error.message x) ''Missing @'' \<longrightarrow>
      validateWithFallback e = Ok ''user@default.com'') \<and>
   (\<forall>x. validateEmail_NeverThrow e = Err x \<and> \<not> includes_str (Error.message x) ''Missing @'' \<longrightarrow>
      validateWithFallback e = Err x) \<and>
   (\<forall>v. validateEmail_NeverThrow e = Ok v \<longrightarrow> validateWithFallback e = Ok v) \<and>
   ((validateWithFallback e = Ok ''user@default.com'') =
      ((\<exists>x. validateEmail_NeverThrow e = Err x \<and>
            includes_str (Error.message x) ''Missing @'') \<or>
       validateEmail_NeverThrow e = Ok ''user@default.com'')) \<and>
   (CHR ''@'' \<notin> set e \<longrightarrow> validateWithFallback e = Ok ''user@default.com'') \<and>
   (CHR ''@'' \<in> set e \<and> CHR ''.'' \<notin> set e \<longrightarrow>
      validateWithFallback e = Err (EmailValidationError ''Missing domain'') \<and>
      validateWithFallback e = validateEmail_NeverThrow e)"
proof -
  have substituted: "(validateWithFallback e \<noteq> validateEmail_NeverThrow e) =
      (\<exists>x. validateEmail_NeverThrow e = Err x \<and>
           includes_str (Error.message x) ''Missing @'')"
    by (cases "validateEmail_NeverThrow e") (simp_all add: validateWithFallback_def)
  have recovered: "\<forall>x. validateEmail_NeverThrow e = Err x \<and>
      includes_str (Error.message x) ''Missing @'' \<longrightarrow>
      validateWithFallback e = Ok ''user@default.com''"
    by (simp add: validateWithFallback_def)
  have unchanged: "\<forall>x. validateEmail_NeverThrow e = Err x \<and>
      \<not> includes_str (Error.message x) ''Missing @'' \<longrightarrow>
      validateWithFallback e = Err x"
    by (simp add: validateWithFallback_def)
  have success: "\<forall>v. validateEmail_NeverThrow e = Ok v \<longrightarrow> validateWithFallback e = Ok v"
    by (simp add: validateWithFallback_def)
  have default: "(validateWithFallback e = Ok ''user@default.com'') =
      ((\<exists>x. validateEmail_NeverThrow e = Err x \<and>
            includes_str (Error.message x) ''Missing @'') \<or>
       validateEmail_NeverThrow e = Ok ''user@default.com'')"
    by (cases "validateEmail_NeverThrow e") (simp_all add: validateWithFallback_def)
  have no_at: "CHR ''@'' \<notin> set e \<longrightarrow> validateWithFallback e = Ok ''user@default.com''"
    using validateEmail_NeverThrow_no_at [of e]
    by (simp add: validateWithFallback_def includes_Missing_at)
  have no_dot: "CHR ''@'' \<in> set e \<and> CHR ''.'' \<notin> set e \<longrightarrow>
      validateWithFallback e = Err (EmailValidationError ''Missing domain'') \<and>
      validateWithFallback e = validateEmail_NeverThrow e"
    using validateEmail_NeverThrow_no_dot [of e]
    by (simp add: validateWithFallback_def includes_Missing_at)
  show ?thesis
    by (intro conjI) (rule substituted recovered unchanged success default no_at no_dot)+
qed

theorem validateWithFallback_cases_witness:
  "validateWithFallback ''no-at-sign'' = Ok ''user@default.com'' \<and>
   validateWithFallback ''no-at-sign'' \<noteq> validateEmail_NeverThrow ''no-at-sign'' \<and>
   validateWithFallback ''a@nodomain'' = Err (EmailValidationError ''Missing domain'') \<and>
   validateWithFallback ''a@nodomain'' = validateEmail_NeverThrow ''a@nodomain'' \<and>
   validateWithFallback ''A@b.com '' = Ok ''a@b.com'' \<and>
   validateWithFallback ''User@Default.com'' = Ok ''user@default.com'' \<and>
   validateWithFallback ''User@Default.com'' = validateEmail_NeverThrow ''User@Default.com''"
proof -
  have missing: "validateEmail_NeverThrow ''no-at-sign'' =
      Err (EmailValidationError ''Missing @ symbol'')"
    by (simp add: validateEmail_NeverThrow_no_at)
  have domain: "validateEmail_NeverThrow ''a@nodomain'' =
      Err (EmailValidationError ''Missing domain'')"
    by (simp add: validateEmail_NeverThrow_no_dot)
  have valid: "validateEmail_NeverThrow ''A@b.com '' = Ok ''a@b.com''"
    by code_simp
  have same: "validateEmail_NeverThrow ''User@Default.com'' = Ok ''user@default.com''"
    by code_simp
  have fails: "\<exists>x. validateEmail_NeverThrow ''no-at-sign'' = Err x \<and>
      includes_str (Error.message x) ''Missing @''"
    using missing includes_Missing_at(1) by (intro exI conjI)
  note substituted = validateWithFallback_cases
    [of "''no-at-sign''", THEN conjunct1, THEN iffD2, OF fails]
  note recovered = validateWithFallback_cases
    [of "''no-at-sign''", THEN conjunct2, THEN conjunct1, rule_format,
      OF conjI [OF missing includes_Missing_at(1)]]
  note unchanged = validateWithFallback_cases
    [of "''a@nodomain''", THEN conjunct2, THEN conjunct2, THEN conjunct1, rule_format,
      OF conjI [OF domain includes_Missing_at(2)]]
  note success = validateWithFallback_cases
    [of "''A@b.com ''", THEN conjunct2, THEN conjunct2, THEN conjunct2, THEN conjunct1,
      rule_format, OF valid]
  note default = validateWithFallback_cases
    [of "''User@Default.com''", THEN conjunct2, THEN conjunct2, THEN conjunct2,
      THEN conjunct2, THEN conjunct1, THEN iffD2, OF disjI2 [OF same]]
  have kept: "validateWithFallback ''a@nodomain'' = validateEmail_NeverThrow ''a@nodomain''"
    by (simp only: unchanged domain)
  have kept': "validateWithFallback ''User@Default.com'' =
      validateEmail_NeverThrow ''User@Default.com''"
    by (simp only: default same)
  show ?thesis
    by (intro conjI recovered substituted unchanged kept success default kept')
qed

end
